theory Spec2Isabelle
  imports Complex_Main
begin

section \<open>Errors and sequencing\<close>

text \<open>
  Every \<^verbatim>\<open>raise\<close> of the Python sources is a value: a function that may raise returns
  \<open>error + 'a\<close>, with \<open>Inl\<close> for the exception. \<open>Exception msg\<close> and
  \<open>ValueError msg\<close> are \<^verbatim>\<open>raise Exception(msg)\<close> and
  \<^verbatim>\<open>raise ValueError(msg)\<close>; \<open>IndexError\<close> and \<open>AttributeError\<close> are the
  interpreter's own exceptions for a list read out of range and for an attribute read
  before any method has assigned it.
\<close>

datatype error = Exception string | ValueError string | IndexError | AttributeError

definition bind_result :: "error + 'a \<Rightarrow> ('a \<Rightarrow> error + 'b) \<Rightarrow> error + 'b" where
  "bind_result r f = (case r of Inl e \<Rightarrow> Inl e | Inr x \<Rightarrow> f x)"

text \<open>\<^verbatim>\<open>xs[i]\<close> for a non-negative literal index.\<close>

definition getitem :: "'a list \<Rightarrow> nat \<Rightarrow> error + 'a" where
  "getitem xs i = (if i < length xs then Inr (xs ! i) else Inl IndexError)"

text \<open>Reading an attribute that a method assigns later.\<close>

definition getattr :: "'a option \<Rightarrow> error + 'a" where
  "getattr a = (case a of None \<Rightarrow> Inl AttributeError | Some v \<Rightarrow> Inr v)"

text \<open>
  \<^verbatim>\<open>for i in xs: body\<close> on a state: the body runs on each element in order, and the
  first exception ends the loop.
\<close>

fun for_each :: "'i list \<Rightarrow> ('i \<Rightarrow> 's \<Rightarrow> error + 's) \<Rightarrow> 's \<Rightarrow> error + 's" where
  "for_each [] body s = Inr s"
| "for_each (i # is) body s = bind_result (body i s) (for_each is body)"

section \<open>The FETI dynamic coupled solver\<close>

subsection \<open>Collaborators\<close>

text \<open>
  A solver wrapper (one per domain) is a collaborator of the coupler; its code is not part
  of \<^verbatim>\<open>feti_dynamic_coupled_solver.py\<close>. The model keeps what the coupler reads from it:
  the class name, the time that \<^verbatim>\<open>AdvanceInTime\<close> returns for a given current time, the
  boolean that the k-th \<^verbatim>\<open>SolveSolutionStep\<close> returns, and the system matrix that its
  solution strategy holds after k solves. \<open>solves\<close> counts the solves done so far.
\<close>

record 'm solver_wrapper =
  ClassName :: string
  advance_time :: "real \<Rightarrow> real"
  solve_result :: "nat \<Rightarrow> bool"
  system_matrix :: "nat \<Rightarrow> 'm"
  solves :: nat

text \<open>
  Every call that the coupler makes on a collaborator is logged, in order. The first
  argument of a solver event is the index of the domain in
  \<^verbatim>\<open>solver_wrappers_vector\<close> (0 is Domain A, 1 is Domain B); the argument of a
  \<open>Vtk\<close> event is the index in \<^verbatim>\<open>vtk_output_wrappers_vector\<close>.
\<close>

datatype 'm event =
    Solver_AdvanceInTime nat real
  | Solver_InitializeSolutionStep nat
  | Solver_Predict nat
  | Solver_SolveSolutionStep nat bool
  | Solver_FinalizeSolutionStep nat
  | Solver_OutputSolutionStep nat
  | Vtk_InitializeSolutionStep nat
  | Vtk_FinalizeSolutionStep nat
  | GetSystemMatrix nat
  | SetEffectiveStiffnessMatrixImplicit 'm nat
  | SetEffectiveStiffnessMatrixExplicit nat
  | EquilibrateDomains
  | Super_InitializeSolutionStep
  | CreateMapper
  | Create_FetiDynamicCouplingUtilities
  | SetOriginAndDestinationDomainsWithInterfaceModelParts
  | ConstructSolver string
  | CreateFastestAvailableDirectLinearSolver
  | SetLinearSolver
  | SetMappingMatrix
  | SetOriginInitialKinematics

text \<open>
  What the coupler reads from its \<^verbatim>\<open>settings\<close> and from the mapper's settings. The
  defaults of \<^verbatim>\<open>_GetDefaultParameters\<close> are the values of \<open>default_settings\<close>;
  \<open>solver_type = None\<close> is a \<^verbatim>\<open>linear_solver_settings\<close> without that key.
\<close>

record settings =
  origin_newmark_beta :: real
  destination_newmark_beta :: real
  timestep_ratio_setting :: real
  solver_type :: "string option"
  mapper_type :: string
  coupling_operations :: "string list"

definition default_settings :: settings where
  "default_settings =
     \<lparr>origin_newmark_beta = - 1, destination_newmark_beta = - 1, timestep_ratio_setting = 1,
      solver_type = None, mapper_type = ''coupling_geometry'', coupling_operations = []\<rparr>"

subsection \<open>The coupler's state\<close>

text \<open>
  The attributes of \<^verbatim>\<open>FetiDynamicCoupledSolver\<close>. \<^verbatim>\<open>__init__\<close> assigns the first four;
  \<open>time\<close> and \<open>solverB_time\<close> are assigned by \<^verbatim>\<open>AdvanceInTime\<close>, \<open>is_implicit\<close>
  (together with \<^verbatim>\<open>feti_coupling\<close>) and \<open>vtk_output_wrappers_vector\<close> by
  \<^verbatim>\<open>__InitializeFetiMethod\<close>, so they are \<open>None\<close> until then. \<open>calls\<close> is the list
  of collaborator calls made so far.
\<close>

record 'm coupler =
  settings :: settings
  solver_wrappers_vector :: "'m solver_wrapper list"
  timestep_ratio :: int
  is_initialized :: bool
  time :: "real option"
  solverB_time :: "real option"
  is_implicit :: "bool list option"
  vtk_output_wrappers_vector :: "string list option"
  calls :: "'m event list"

definition emit :: "'m event list \<Rightarrow> 'm coupler \<Rightarrow> 'm coupler" where
  "emit evs c = c\<lparr>calls := calls c @ evs\<rparr>"

subsection \<open>Construction\<close>

text \<open>Python's \<^verbatim>\<open>int(x)\<close> on a float truncates towards zero.\<close>

definition py_int :: "real \<Rightarrow> int" where
  "py_int x = (if 0 \<le> x then \<lfloor>x\<rfloor> else \<lceil>x\<rceil>)"

text \<open>
  \<^verbatim>\<open>__init__\<close>, lines 17 to 33. The base class constructor and the registration of the
  Lagrange multiplier variable on each solver's model part are collaborator code; the
  model takes the solver wrappers in the order of \<^verbatim>\<open>self.solver_wrappers.items()\<close>.
\<close>

definition init :: "settings \<Rightarrow> 'm solver_wrapper list \<Rightarrow> error + 'm coupler" where
  "init s wrappers =
     (let ratio = timestep_ratio_setting s in
      if real_of_int (py_int ratio) \<noteq> ratio
      then Inl (Exception ''An integer timestep_ratio must be specified in the CoSim parameters file.'')
      else Inr \<lparr>settings = s, solver_wrappers_vector = wrappers, timestep_ratio = py_int ratio,
                is_initialized = False, time = None, solverB_time = None, is_implicit = None,
                vtk_output_wrappers_vector = None, calls = []\<rparr>)"

subsection \<open>Calls on a domain's solver wrapper\<close>

definition wrapper_AdvanceInTime :: "nat \<Rightarrow> real \<Rightarrow> 'm coupler \<Rightarrow> error + (real \<times> 'm coupler)" where
  "wrapper_AdvanceInTime i t c =
     bind_result (getitem (solver_wrappers_vector c) i)
       (\<lambda>w. Inr (advance_time w t, emit [Solver_AdvanceInTime i t] c))"

definition wrapper_SolveSolutionStep :: "nat \<Rightarrow> 'm coupler \<Rightarrow> error + (bool \<times> 'm coupler)" where
  "wrapper_SolveSolutionStep i c =
     bind_result (getitem (solver_wrappers_vector c) i)
       (\<lambda>w. let r = solve_result w (solves w) in
             Inr (r, emit [Solver_SolveSolutionStep i r]
                       (c\<lparr>solver_wrappers_vector :=
                            (solver_wrappers_vector c)[i := w\<lparr>solves := Suc (solves w)\<rparr>]\<rparr>)))"

subsection \<open>AdvanceInTime\<close>

text \<open>Lines 36 to 48. The result is the returned time and the coupler after the call.\<close>

definition AdvanceInTime :: "real \<Rightarrow> 'm coupler \<Rightarrow> error + (real \<times> 'm coupler)" where
  "AdvanceInTime current_time c =
     (let c = c\<lparr>time := Some 0\<rparr> in
      bind_result (wrapper_AdvanceInTime 1 current_time c) (\<lambda>(tB, c).
      let c = c\<lparr>solverB_time := Some tB\<rparr> in
      bind_result (wrapper_AdvanceInTime 0 current_time c) (\<lambda>(solver_time, c).
      let c = (if solver_time \<noteq> 0
               then (if time c = Some 0 then c\<lparr>time := Some solver_time\<rparr> else c)
               else c) in
      bind_result (getattr (time c)) (\<lambda>t. Inr (t, c)))))"

subsection \<open>The stiffness exchange\<close>

text \<open>
  \<^verbatim>\<open>_GetSolverStrategy\<close>, lines 166 to 173: the strategy of a structural mechanics
  wrapper, an exception for any other wrapper. The strategy is represented by the matrix
  that its \<^verbatim>\<open>GetSystemMatrix\<close> returns now, the one held after the solves done so far.
\<close>

definition GetSolverStrategy :: "nat \<Rightarrow> 'm coupler \<Rightarrow> error + 'm" where
  "GetSolverStrategy solverIndex c =
     bind_result (getitem (solver_wrappers_vector c) solverIndex) (\<lambda>w.
       let solver_name = ClassName w in
       if solver_name = ''StructuralMechanicsWrapper''
       then Inr (system_matrix w (solves w))
       else Inl (Exception (''_GetSolverStrategy not implemented for solver wrapper = '' @ solver_name)))"

text \<open>\<^verbatim>\<open>__SendStiffnessMatrixToUtility\<close>, lines 150 to 155.\<close>

definition SendStiffnessMatrixToUtility :: "nat \<Rightarrow> 'm coupler \<Rightarrow> error + 'm coupler" where
  "SendStiffnessMatrixToUtility solverIndex c =
     bind_result (getattr (is_implicit c)) (\<lambda>imp.
     bind_result (getitem imp solverIndex) (\<lambda>implicit.
       if implicit
       then bind_result (GetSolverStrategy solverIndex c) (\<lambda>system_matrix.
              Inr (emit [GetSystemMatrix solverIndex,
                         SetEffectiveStiffnessMatrixImplicit system_matrix solverIndex] c))
       else Inr (emit [SetEffectiveStiffnessMatrixExplicit solverIndex] c)))"

subsection \<open>SolveSolutionStep\<close>

text \<open>
  The loop over \<^verbatim>\<open>sub_timestep\<close>, lines 65 to 83; \<^verbatim>\<open>solverB\<close> is
  \<^verbatim>\<open>solver_wrappers_vector[1]\<close>, read before the loop. \<open>substep_prepare\<close> is the
  body of \<^verbatim>\<open>if sub_timestep > 1\<close> (lines 67 to 71), \<open>substep_finalize\<close> the body of
  \<^verbatim>\<open>if sub_timestep != self.timestep_ratio\<close> (lines 80 to 83), \<open>substep\<close> one pass.
\<close>

definition substep_prepare :: "'m coupler \<Rightarrow> error + 'm coupler" where
  "substep_prepare c =
     bind_result (getattr (solverB_time c)) (\<lambda>tB.
     bind_result (wrapper_AdvanceInTime 1 tB c) (\<lambda>(tB', c).
     let c = emit [Solver_InitializeSolutionStep 1] (c\<lparr>solverB_time := Some tB'\<rparr>) in
     bind_result (getattr (vtk_output_wrappers_vector c)) (\<lambda>vtk.
     let c = (if length vtk = 2 then emit [Vtk_InitializeSolutionStep 1] c else c) in
     Inr (emit [Solver_Predict 1] c))))"

definition substep_finalize :: "'m coupler \<Rightarrow> error + 'm coupler" where
  "substep_finalize c =
     (let c = emit [Solver_FinalizeSolutionStep 1] c in
      bind_result (getattr (vtk_output_wrappers_vector c)) (\<lambda>vtk.
      let c = (if length vtk = 2 then emit [Vtk_FinalizeSolutionStep 1] c else c) in
      Inr (emit [Solver_OutputSolutionStep 1] c)))"

definition substep :: "int \<Rightarrow> 'm coupler \<Rightarrow> error + 'm coupler" where
  "substep sub_timestep c =
     bind_result (if sub_timestep > 1 then substep_prepare c else Inr c) (\<lambda>c.
     bind_result (wrapper_SolveSolutionStep 1 c) (\<lambda>(r, c).
     bind_result (SendStiffnessMatrixToUtility 1 c) (\<lambda>c.
     let c = emit [EquilibrateDomains] c in
     if sub_timestep \<noteq> timestep_ratio c then substep_finalize c else Inr c)))"

text \<open>
  \<^verbatim>\<open>SolveSolutionStep\<close>, lines 58 to 85. \<^verbatim>\<open>range(1, self.timestep_ratio + 1)\<close> is the
  list \<open>[1..timestep_ratio c]\<close>, empty when the ratio is below 1.
\<close>

definition SolveSolutionStep :: "'m coupler \<Rightarrow> error + (bool \<times> 'm coupler)" where
  "SolveSolutionStep c =
     bind_result (wrapper_SolveSolutionStep 0 c) (\<lambda>(r, c).
     bind_result (SendStiffnessMatrixToUtility 0 c) (\<lambda>c.
     bind_result (getitem (solver_wrappers_vector c) 1) (\<lambda>solverB.
     bind_result (for_each [1..timestep_ratio c] substep c) (\<lambda>c.
     Inr (True, c)))))"

subsection \<open>One-time setup\<close>

text \<open>\<^verbatim>\<open>_CreateLinearSolver\<close>, lines 158 to 164.\<close>

definition CreateLinearSolver :: "'m coupler \<Rightarrow> 'm coupler" where
  "CreateLinearSolver c =
     (case solver_type (settings c) of
        Some t \<Rightarrow> emit [ConstructSolver t] c
      | None \<Rightarrow> emit [CreateFastestAvailableDirectLinearSolver] c)"

text \<open>
  \<^verbatim>\<open>__InitializeFetiMethod\<close>, lines 88 to 147. The interface model parts, the mapper and
  the coupling utility are collaborators: their construction is logged.
\<close>

definition InitializeFetiMethod :: "'m coupler \<Rightarrow> error + 'm coupler" where
  "InitializeFetiMethod c =
     bind_result (getitem (solver_wrappers_vector c) 0) (\<lambda>wA.
     bind_result (getitem (solver_wrappers_vector c) 1) (\<lambda>wB.
     let c = emit [CreateMapper] c;
         c = c\<lparr>is_implicit := Some [True, True]\<rparr>;
         origin_newmark_beta = origin_newmark_beta (settings c);
         destination_newmark_beta = destination_newmark_beta (settings c);
         c = (if origin_newmark_beta = 0
              then c\<lparr>is_implicit := map_option (\<lambda>l. l[0 := False]) (is_implicit c)\<rparr> else c);
         c = (if destination_newmark_beta = 0
              then c\<lparr>is_implicit := map_option (\<lambda>l. l[1 := False]) (is_implicit c)\<rparr> else c);
         c = emit [Create_FetiDynamicCouplingUtilities,
                   SetOriginAndDestinationDomainsWithInterfaceModelParts] c;
         c = emit [SetLinearSolver] (CreateLinearSolver c)
     in if mapper_type (settings c) = ''coupling_geometry''
        then let c = emit [SetMappingMatrix] c;
                 c = emit [SetOriginInitialKinematics] c;
                 c = c\<lparr>vtk_output_wrappers_vector := Some (coupling_operations (settings c))\<rparr>
             in Inr (c\<lparr>is_initialized := True\<rparr>)
        else Inl (Exception ''Dynamic coupled solver currently only compatible with the coupling_geometry mapper.'')))"

text \<open>\<^verbatim>\<open>InitializeSolutionStep\<close>, lines 51 to 55.\<close>

definition InitializeSolutionStep :: "'m coupler \<Rightarrow> error + 'm coupler" where
  "InitializeSolutionStep c =
     (let c = emit [Super_InitializeSolutionStep] c in
      if is_initialized c = False then InitializeFetiMethod c else Inr c)"

section \<open>The fluid RVE analysis\<close>

subsection \<open>Mesh data\<close>

text \<open>
  A \<^verbatim>\<open>KratosMultiphysics.Array3\<close> is a triple of floats, read by index 0, 1 or 2 (the
  sources use no other index). Coordinates are real numbers in the model.
\<close>

type_synonym Array3 = "real \<times> real \<times> real"

definition at3 :: "Array3 \<Rightarrow> nat \<Rightarrow> real" where
  "at3 a i = (case a of (x, y, z) \<Rightarrow> if i = 0 then x else if i = 1 then y else z)"

definition sub3 :: "Array3 \<Rightarrow> Array3 \<Rightarrow> Array3" where
  "sub3 a b = (at3 a 0 - at3 b 0, at3 a 1 - at3 b 1, at3 a 2 - at3 b 2)"

record node =
  node_Id :: nat
  X :: real
  Y :: real
  Z :: real

text \<open>
  A condition is a boundary facet. \<open>Center\<close> is what \<^verbatim>\<open>cond.GetGeometry().Center()\<close>
  returns and \<open>GetNodes\<close> the identifiers of the nodes of \<^verbatim>\<open>cond.GetNodes()\<close>; both
  come from the native geometry. A condition is the same object exactly when it is the same
  record.
\<close>

record condition =
  cond_Id :: nat
  Center :: Array3
  GetNodes :: "nat list"

text \<open>
  A model part (the root, the boundary region, a face group): its conditions, and the
  identifiers of its nodes. A container holds a condition at most once.
\<close>

record model_part =
  Conditions :: "condition list"
  Nodes :: "nat set"

definition NumberOfConditions :: "model_part \<Rightarrow> nat" where
  "NumberOfConditions mp = length (Conditions mp)"

definition AddCondition :: "condition \<Rightarrow> model_part \<Rightarrow> model_part" where
  "AddCondition cond mp =
     (if cond \<in> set (Conditions mp) then mp else mp\<lparr>Conditions := Conditions mp @ [cond]\<rparr>)"

definition AddNodes :: "nat set \<Rightarrow> model_part \<Rightarrow> model_part" where
  "AddNodes node_ids mp = mp\<lparr>Nodes := Nodes mp \<union> node_ids\<rparr>"

text \<open>
  A master-slave constraint with its \<^verbatim>\<open>TO_ERASE\<close> flag; \<open>'c\<close> is what the native
  constraint holds.
\<close>

record 'c constraint =
  relation :: 'c
  TO_ERASE :: bool

text \<open>
  The root model part with what hangs on it: its named sub model parts, the
  \<^verbatim>\<open>SLAVE\<close> and \<^verbatim>\<open>MASTER\<close> flags of the nodes (the set of the identifiers of the
  flagged nodes; a node is one object, whichever condition or model part reaches it) and
  the master-slave constraints.
\<close>

record 'c mesh =
  root :: model_part
  SubModelParts :: "string \<rightharpoonup> model_part"
  SLAVE :: "nat set"
  MASTER :: "nat set"
  MasterSlaveConstraints :: "'c constraint list"

subsection \<open>The analysis object\<close>

text \<open>
  The attributes of \<^verbatim>\<open>FluidRVEAnalysis\<close> that the geometry methods use. The corners
  and the faces are assigned by \<^verbatim>\<open>ModifyInitialGeometry\<close> and
  \<^verbatim>\<open>_ConstructFaceModelParts\<close>; they are \<open>None\<close> until then. A face attribute refers
  to a sub model part of the root; the six face names are distinct and a sub model part
  is changed by the call that populates it only, so the attribute is kept by value.
\<close>

record analysis =
  domain_size :: int
  strain_size :: nat
  populate_search_eps :: real
  geometrical_search_tolerance :: real
  averaging_volume :: real
  min_corner :: "Array3 option"
  max_corner :: "Array3 option"
  max_x_face :: "model_part option"
  max_y_face :: "model_part option"
  max_z_face :: "model_part option"
  min_x_face :: "model_part option"
  min_y_face :: "model_part option"
  min_z_face :: "model_part option"

text \<open>
  \<^verbatim>\<open>__init__\<close>, lines 9 to 41, for the attributes above. The message of the
  \<^verbatim>\<open>ValueError\<close> is kept without the number that the source formats into it.
\<close>

definition rve_init :: "int \<Rightarrow> error + analysis" where
  "rve_init dsize =
     (if dsize = 2 \<or> dsize = 3
      then Inr \<lparr>domain_size = dsize, strain_size = (if dsize = 2 then 3 else 6),
                populate_search_eps = 1 / 10 ^ 4, geometrical_search_tolerance = 1 / 10 ^ 4,
                averaging_volume = - 1, min_corner = None, max_corner = None,
                max_x_face = None, max_y_face = None, max_z_face = None,
                min_x_face = None, min_y_face = None, min_z_face = None\<rparr>
      else Inl (ValueError ''Wrong 'domain_size' value. Expected 2 or 3.''))"

subsection \<open>Bounding box\<close>

text \<open>
  \<^verbatim>\<open>_DetectBoundingBox\<close>, lines 75 to 103: one pass over the nodes of the region, from
  the sentinels \<open>1e20\<close> and \<open>-1e20\<close>. Python's \<^verbatim>\<open>min(a, b)\<close> and \<^verbatim>\<open>max(a, b)\<close>
  on two numbers are \<open>min\<close> and \<open>max\<close>.
\<close>

definition bounding_step :: "node \<Rightarrow> Array3 \<times> Array3 \<Rightarrow> Array3 \<times> Array3" where
  "bounding_step n = (\<lambda>(min_corner, max_corner).
     ((min (at3 min_corner 0) (X n), min (at3 min_corner 1) (Y n), min (at3 min_corner 2) (Z n)),
      (max (at3 max_corner 0) (X n), max (at3 max_corner 1) (Y n), max (at3 max_corner 2) (Z n))))"

definition DetectBoundingBox :: "node list \<Rightarrow> Array3 \<times> Array3" where
  "DetectBoundingBox nodes =
     fold bounding_step nodes ((10 ^ 20, 10 ^ 20, 10 ^ 20), (- (10 ^ 20), - (10 ^ 20), - (10 ^ 20)))"

subsection \<open>Face classification\<close>

text \<open>
  The second loop of \<^verbatim>\<open>__PopulateMp\<close>, lines 120 to 125, on one node: the pair is
  \<^verbatim>\<open>node_ids\<close> and the \<^verbatim>\<open>SLAVE\<close> flags.
\<close>

definition claim_node :: "nat \<Rightarrow> nat set \<times> nat set \<Rightarrow> nat set \<times> nat set" where
  "claim_node n = (\<lambda>(node_ids, slave).
     if n \<notin> slave then (insert n node_ids, insert n slave) else (node_ids, slave))"

definition claim_nodes :: "condition list \<Rightarrow> nat set \<times> nat set \<Rightarrow> nat set \<times> nat set" where
  "claim_nodes conds = fold (\<lambda>cond. fold claim_node (GetNodes cond)) conds"

text \<open>The first loop, lines 115 to 118.\<close>

definition add_near :: "real \<Rightarrow> nat \<Rightarrow> real \<Rightarrow> condition list \<Rightarrow> model_part \<Rightarrow> model_part" where
  "add_near coordinate component eps conds =
     fold (\<lambda>cond face_mp.
             if \<bar>at3 (Center cond) component - coordinate\<bar> < eps
             then AddCondition cond face_mp else face_mp) conds"

text \<open>
  \<^verbatim>\<open>__PopulateMp\<close>, lines 105 to 128. The argument \<open>mp\<close> is the boundary region; after
  the first check the Python variable is rebound to the root model part, which is
  \<open>root m\<close> here. The result is the face and the mesh after the call.
\<close>

definition PopulateMp ::
  "string \<Rightarrow> real \<Rightarrow> nat \<Rightarrow> real \<Rightarrow> model_part \<Rightarrow> 'c mesh \<Rightarrow> error + (model_part \<times> 'c mesh)" where
  "PopulateMp face_name coordinate component eps mp m =
     (if NumberOfConditions mp = 0
      then Inl (Exception ''Boundary_mp is expected to have conditions and has none'')
      else
        let m = (if SubModelParts m face_name = None
                 then m\<lparr>SubModelParts := (SubModelParts m)(face_name \<mapsto> \<lparr>Conditions = [], Nodes = {}\<rparr>)\<rparr>
                 else m);
            face_mp = the (SubModelParts m face_name);
            face_mp = add_near coordinate component eps (Conditions (root m)) face_mp;
            (node_ids, slave) = claim_nodes (Conditions face_mp) ({}, SLAVE m);
            face_mp = AddNodes node_ids face_mp
        in Inr (face_mp, m\<lparr>SubModelParts := (SubModelParts m)(face_name \<mapsto> face_mp), SLAVE := slave\<rparr>))"

text \<open>
  \<^verbatim>\<open>_ConstructFaceModelParts\<close>, lines 130 to 155, on the analysis object and the mesh.
\<close>

definition ConstructFaceModelParts ::
  "Array3 \<Rightarrow> Array3 \<Rightarrow> model_part \<Rightarrow> analysis \<times> 'c mesh \<Rightarrow> error + (analysis \<times> 'c mesh)" where
  "ConstructFaceModelParts min_c max_c mp = (\<lambda>(self, m).
     let diag_vect = sub3 max_c min_c;
         diag_lenght = sqrt ((at3 diag_vect 0)\<^sup>2 + (at3 diag_vect 1)\<^sup>2 + (at3 diag_vect 2)\<^sup>2);
         eps = populate_search_eps self * diag_lenght;
         m = m\<lparr>SLAVE := SLAVE m - Nodes mp\<rparr>;
         m = m\<lparr>MASTER := MASTER m - Nodes mp\<rparr>
     in
     bind_result (PopulateMp ''max_x_face'' (at3 max_c 0) 0 eps mp m) (\<lambda>(f, m).
     let self = self\<lparr>max_x_face := Some f\<rparr> in
     bind_result (PopulateMp ''max_y_face'' (at3 max_c 1) 1 eps mp m) (\<lambda>(f, m).
     let self = self\<lparr>max_y_face := Some f\<rparr> in
     bind_result (if domain_size self = 3
                  then bind_result (PopulateMp ''max_z_face'' (at3 max_c 2) 2 eps mp m)
                         (\<lambda>(f, m). Inr (self\<lparr>max_z_face := Some f\<rparr>, m))
                  else Inr (self, m)) (\<lambda>(self, m).
     bind_result (PopulateMp ''min_x_face'' (at3 min_c 0) 0 eps mp m) (\<lambda>(f, m).
     let self = self\<lparr>min_x_face := Some f\<rparr> in
     bind_result (PopulateMp ''min_y_face'' (at3 min_c 1) 1 eps mp m) (\<lambda>(f, m).
     let self = self\<lparr>min_y_face := Some f\<rparr> in
     bind_result (if domain_size self = 3
                  then bind_result (PopulateMp ''min_z_face'' (at3 min_c 2) 2 eps mp m)
                         (\<lambda>(f, m). Inr (self\<lparr>min_z_face := Some f\<rparr>, m))
                  else Inr (self, m)) (\<lambda>(self, m).
     bind_result (getattr (min_x_face self)) (\<lambda>fx.
     if NumberOfConditions fx = 0 then Inl (Exception ''min_x_face has 0 conditions'') else
     bind_result (getattr (min_y_face self)) (\<lambda>fy.
     if NumberOfConditions fy = 0 then Inl (Exception ''min_y_face has 0 conditions'') else
     if domain_size self = 3
     then bind_result (getattr (min_z_face self)) (\<lambda>fz.
            if NumberOfConditions fz = 0 then Inl (Exception ''min_z_face has 0 conditions'')
            else Inr (self, m))
     else Inr (self, m))))))))))"

text \<open>
  \<^verbatim>\<open>ModifyInitialGeometry\<close>, lines 44 to 56, given the nodes of the averaging region and
  the boundary region.
\<close>

definition ModifyInitialGeometry ::
  "node list \<Rightarrow> model_part \<Rightarrow> analysis \<times> 'c mesh \<Rightarrow> error + (analysis \<times> 'c mesh)" where
  "ModifyInitialGeometry averaging_nodes boundary_mp = (\<lambda>(self, m).
     let (min_c, max_c) = DetectBoundingBox averaging_nodes;
         self = self\<lparr>min_corner := Some min_c, max_corner := Some max_c\<rparr> in
     bind_result (ConstructFaceModelParts min_c max_c boundary_mp (self, m)) (\<lambda>(self, m).
     let volume = fold (\<lambda>i v. v * (at3 max_c i - at3 min_c i)) [0..<nat (domain_size self)] 1
     in Inr (self\<lparr>averaging_volume := volume\<rparr>, m)))"

subsection \<open>Periodicity\<close>

text \<open>
  Modelled from the spec: \<^verbatim>\<open>RVEPeriodicityUtility\<close> is native code that the Python
  sources only call. Following sections 3 and 4.2 of the specification, one
  \<^verbatim>\<open>AssignPeriodicity\<close> call records a periodicity relation between a master face and a
  slave face for a strain tensor, a separation vector and a search tolerance, and
  \<^verbatim>\<open>Finalize\<close> turns the recorded relations into master-slave constraints that it adds
  to the mesh. What the two calls compute is left open: \<open>AssignPeriodicity\<close> and
  \<open>Finalize\<close> are arbitrary functions of their arguments and of the mesh they see, and
  the utility changes nothing in the mesh but the constraints. \<open>'s\<close> is the strain
  matrix, \<open>'a\<close> a recorded relation, \<open>'c\<close> the content of a constraint.
\<close>

record ('c, 's, 'a) periodicity_utility =
  AssignPeriodicity :: "'c mesh \<Rightarrow> model_part \<Rightarrow> model_part \<Rightarrow> 's \<Rightarrow> real list \<Rightarrow> real \<Rightarrow> 'a"
  Finalize :: "'c mesh \<Rightarrow> 'a list \<Rightarrow> 'c list"

text \<open>
  The two statements under \<^verbatim>\<open># clear\<close>, lines 159 to 162: every constraint of the root
  is flagged, then the flagged constraints are removed.
\<close>

definition clear_constraints :: "'c mesh \<Rightarrow> 'c mesh" where
  "clear_constraints m =
     (let m = m\<lparr>MasterSlaveConstraints := map (\<lambda>k. k\<lparr>TO_ERASE := True\<rparr>) (MasterSlaveConstraints m)\<rparr>
      in m\<lparr>MasterSlaveConstraints := filter (\<lambda>k. \<not> TO_ERASE k) (MasterSlaveConstraints m)\<rparr>)"

text \<open>
  \<^verbatim>\<open>_ApplyPeriodicity\<close>, lines 157 to 180. \<open>pending\<close> is the state of the utility
  object created on line 169.
\<close>

definition ApplyPeriodicity ::
  "('c, 's, 'a) periodicity_utility \<Rightarrow> 's \<Rightarrow> analysis \<Rightarrow> 'c mesh \<Rightarrow> error + 'c mesh" where
  "ApplyPeriodicity util strain self m =
     (let m = clear_constraints m in
      bind_result (getattr (max_corner self)) (\<lambda>max_c.
      bind_result (getattr (min_corner self)) (\<lambda>min_c.
      let dx = at3 max_c 0 - at3 min_c 0;
          dy = at3 max_c 1 - at3 min_c 1;
          tol = geometrical_search_tolerance self;
          pending = [];
          direction_x = (if strain_size self = 6 then [dx, 0, 0] else [dx, 0])
      in
      bind_result (getattr (min_x_face self)) (\<lambda>fmin.
      bind_result (getattr (max_x_face self)) (\<lambda>fmax.
      let pending = pending @ [AssignPeriodicity util m fmin fmax strain direction_x tol];
          direction_y = (if strain_size self = 6 then [0, dy, 0] else [0, dy])
      in
      bind_result (getattr (min_y_face self)) (\<lambda>fmin.
      bind_result (getattr (max_y_face self)) (\<lambda>fmax.
      let pending = pending @ [AssignPeriodicity util m fmin fmax strain direction_y tol] in
      bind_result
        (if strain_size self = 6
         then let dz = at3 max_c 2 - at3 min_c 2;
                  direction_z = [0, 0, dz] in
              bind_result (getattr (min_z_face self)) (\<lambda>fmin.
              bind_result (getattr (max_z_face self)) (\<lambda>fmax.
              Inr (pending @ [AssignPeriodicity util m fmin fmax strain direction_z tol])))
         else Inr pending) (\<lambda>pending.
      Inr (m\<lparr>MasterSlaveConstraints := MasterSlaveConstraints m @
                map (\<lambda>r. \<lparr>relation = r, TO_ERASE = False\<rparr>) (Finalize util m pending)\<rparr>)))))))))"

section \<open>Vocabulary of the properties\<close>

subsection \<open>The schedule of a run of the coupler\<close>

text \<open>
  The calls that the schedule of a coupled step is made of: a domain's solve, the
  submission of its effective stiffness (as a matrix or as the explicit-mode signal), the
  equilibration, and the three calls that open a further substep of a domain. \<open>schedule\<close>
  keeps these calls of a log, in order, and drops the others; \<open>substep_schedule k\<close> is
  the schedule of substep \<open>k\<close>.
\<close>

datatype call = Solve nat | SubmitStiffness nat | Equilibrate | Advance nat | InitializeStep nat | Predict nat

fun call_of :: "'m event \<Rightarrow> call option" where
  "call_of (Solver_SolveSolutionStep i r) = Some (Solve i)"
| "call_of (SetEffectiveStiffnessMatrixImplicit mat i) = Some (SubmitStiffness i)"
| "call_of (SetEffectiveStiffnessMatrixExplicit i) = Some (SubmitStiffness i)"
| "call_of EquilibrateDomains = Some Equilibrate"
| "call_of (Solver_AdvanceInTime i t) = Some (Advance i)"
| "call_of (Solver_InitializeSolutionStep i) = Some (InitializeStep i)"
| "call_of (Solver_Predict i) = Some (Predict i)"
| "call_of _ = None"

definition schedule :: "'m event list \<Rightarrow> call list" where
  "schedule evs = List.map_filter call_of evs"

definition substep_schedule :: "int \<Rightarrow> call list" where
  "substep_schedule k =
     (if k > 1 then [Advance 1, InitializeStep 1, Predict 1] else []) @
     [Solve 1, SubmitStiffness 1, Equilibrate]"

text \<open>
  The state in which \<^verbatim>\<open>SolveSolutionStep\<close> meets no exception of its own: both
  domains are there, \<^verbatim>\<open>__InitializeFetiMethod\<close> and \<^verbatim>\<open>AdvanceInTime\<close> have assigned
  their attributes, and each implicit domain has a structural mechanics wrapper.
\<close>

definition solve_ready :: "'m coupler \<Rightarrow> bool" where
  "solve_ready c =
     (2 \<le> length (solver_wrappers_vector c) \<and>
      (case is_implicit c of
         None \<Rightarrow> False
       | Some imp \<Rightarrow> 2 \<le> length imp \<and>
           (imp ! 0 \<longrightarrow> ClassName (solver_wrappers_vector c ! 0) = ''StructuralMechanicsWrapper'') \<and>
           (imp ! 1 \<longrightarrow> ClassName (solver_wrappers_vector c ! 1) = ''StructuralMechanicsWrapper'')) \<and>
      solverB_time c \<noteq> None \<and> vtk_output_wrappers_vector c \<noteq> None)"

text \<open>
  The time integration modes follow the settings, as \<^verbatim>\<open>__InitializeFetiMethod\<close> leaves
  them; \<open>newmark_beta s i\<close> is the Newmark beta configured for domain \<open>i\<close>.
\<close>

definition newmark_beta :: "settings \<Rightarrow> nat \<Rightarrow> real" where
  "newmark_beta s i = (if i = 0 then origin_newmark_beta s else destination_newmark_beta s)"

definition feti_modes_set :: "'m coupler \<Rightarrow> bool" where
  "feti_modes_set c =
     (is_implicit c =
        Some [origin_newmark_beta (settings c) \<noteq> 0, destination_newmark_beta (settings c) \<noteq> 0])"

text \<open>Two states of the coupler with the same modes and the same settings.\<close>

definition same_modes :: "'m coupler \<Rightarrow> 'm coupler \<Rightarrow> bool" where
  "same_modes c c' = (is_implicit c' = is_implicit c \<and> settings c' = settings c)"

subsection \<open>Example configurations\<close>

text \<open>
  A structural domain whose clock advances by 1 and whose solves all return
  \<^verbatim>\<open>False\<close>, a domain that does not track time, and couplers over them after setup
  (Domain A implicit, Domain B explicit).
\<close>

definition demo_wrapper :: "nat solver_wrapper" where
  "demo_wrapper =
     \<lparr>ClassName = ''StructuralMechanicsWrapper'', advance_time = (\<lambda>t. t + 1),
      solve_result = (\<lambda>k. False), system_matrix = (\<lambda>k. k), solves = 0\<rparr>"

definition demo_coupler :: "nat coupler" where
  "demo_coupler =
     \<lparr>settings = default_settings\<lparr>timestep_ratio_setting := 3, destination_newmark_beta := 0\<rparr>,
      solver_wrappers_vector = [demo_wrapper, demo_wrapper], timestep_ratio = 3,
      is_initialized = True, time = Some 1, solverB_time = Some 1,
      is_implicit = Some [True, False], vtk_output_wrappers_vector = Some [], calls = []\<rparr>"

definition steady_wrapper :: "nat solver_wrapper" where
  "steady_wrapper = demo_wrapper\<lparr>advance_time := (\<lambda>t. 0)\<rparr>"

definition steady_A_coupler :: "nat coupler" where
  "steady_A_coupler = demo_coupler\<lparr>solver_wrappers_vector := [steady_wrapper, demo_wrapper]\<rparr>"

subsection \<open>Faces and their facets\<close>

text \<open>
  \<open>near\<close> is the test of line 117. \<open>facet_nodes f\<close> are the nodes that lie on the
  facets of a face group. \<open>conditions_before\<close> and \<open>nodes_before\<close> are what a sub
  model part of a given name holds before a call (nothing when there is none yet), and
  \<open>search_eps\<close> is the tolerance computed on lines 131 to 133.
\<close>

definition near :: "real \<Rightarrow> nat \<Rightarrow> real \<Rightarrow> condition \<Rightarrow> bool" where
  "near coordinate component eps cond = (\<bar>at3 (Center cond) component - coordinate\<bar> < eps)"

definition facet_nodes :: "model_part \<Rightarrow> nat set" where
  "facet_nodes f = (\<Union>cond \<in> set (Conditions f). set (GetNodes cond))"

definition conditions_before :: "'c mesh \<Rightarrow> string \<Rightarrow> condition list" where
  "conditions_before m face_name = (case SubModelParts m face_name of None \<Rightarrow> [] | Some f \<Rightarrow> Conditions f)"

definition nodes_before :: "'c mesh \<Rightarrow> string \<Rightarrow> nat set" where
  "nodes_before m face_name = (case SubModelParts m face_name of None \<Rightarrow> {} | Some f \<Rightarrow> Nodes f)"







subsection \<open>Example meshes\<close>

text \<open>
  The rectangle with corners (0, 0) and (3, 4): nodes 1 to 4 counter-clockwise from the
  origin, one facet per side. \<open>rectangle_mesh conds\<close> is a root model part with the given
  facets and no sub model part; \<open>classify_rectangle conds\<close> classifies the faces of such
  a mesh, with the whole root as the boundary region, for the bounding box of the
  rectangle. \<open>classified_all\<close> is the analysis object after the classification of all
  four sides.
\<close>

definition cond_bottom :: condition where
  "cond_bottom = \<lparr>cond_Id = 1, Center = (3 / 2, 0, 0), GetNodes = [1, 2]\<rparr>"
definition cond_right :: condition where
  "cond_right = \<lparr>cond_Id = 2, Center = (3, 2, 0), GetNodes = [2, 3]\<rparr>"
definition cond_top :: condition where
  "cond_top = \<lparr>cond_Id = 3, Center = (3 / 2, 4, 0), GetNodes = [3, 4]\<rparr>"
definition cond_left :: condition where
  "cond_left = \<lparr>cond_Id = 4, Center = (0, 2, 0), GetNodes = [4, 1]\<rparr>"

definition side_region :: "condition list \<Rightarrow> model_part" where
  "side_region conds = \<lparr>Conditions = conds, Nodes = (\<Union>c \<in> set conds. set (GetNodes c))\<rparr>"

definition rectangle_mesh :: "condition list \<Rightarrow> 'c mesh" where
  "rectangle_mesh conds =
     \<lparr>root = side_region conds, SubModelParts = Map.empty, SLAVE = {}, MASTER = {},
      MasterSlaveConstraints = []\<rparr>"

definition analysis_2D :: analysis where
  "analysis_2D =
     \<lparr>domain_size = 2, strain_size = 3,
                populate_search_eps = 1 / 10 ^ 4, geometrical_search_tolerance = 1 / 10 ^ 4,
                averaging_volume = - 1, min_corner = None, max_corner = None,
                max_x_face = None, max_y_face = None, max_z_face = None,
                min_x_face = None, min_y_face = None, min_z_face = None\<rparr>"


definition all_sides :: "condition list" where
  "all_sides = [cond_bottom, cond_right, cond_top, cond_left]"

definition rectangle_nodes :: "node list" where
  "rectangle_nodes =
     [\<lparr>node_Id = 1, X = 0, Y = 0, Z = 0\<rparr>, \<lparr>node_Id = 2, X = 3, Y = 0, Z = 0\<rparr>,
      \<lparr>node_Id = 3, X = 3, Y = 4, Z = 0\<rparr>, \<lparr>node_Id = 4, X = 0, Y = 4, Z = 0\<rparr>]"

definition classified_all :: analysis where
  "classified_all =
     analysis_2D\<lparr>max_x_face := Some \<lparr>Conditions = [cond_right], Nodes = {2, 3}\<rparr>,
                 max_y_face := Some \<lparr>Conditions = [cond_top], Nodes = {4}\<rparr>,
                 min_x_face := Some \<lparr>Conditions = [cond_left], Nodes = {1}\<rparr>,
                 min_y_face := Some \<lparr>Conditions = [cond_bottom], Nodes = {}\<rparr>\<rparr>"







text \<open>
  A periodicity utility that records the separation vector of each face pair and makes
  one constraint of each record, and a mesh that holds one constraint of another origin.
\<close>

definition demo_utility :: "(real list, unit, real list) periodicity_utility" where
  "demo_utility =
     \<lparr>AssignPeriodicity = (\<lambda>m fmin fmax strain direction tol. direction),
      Finalize = (\<lambda>m relations. relations)\<rparr>"

definition periodic_analysis :: analysis where
  "periodic_analysis = classified_all\<lparr>min_corner := Some (0, 0, 0), max_corner := Some (3, 4, 0)\<rparr>"

definition constrained_mesh :: "real list mesh" where
  "constrained_mesh =
     (rectangle_mesh all_sides)\<lparr>MasterSlaveConstraints := [\<lparr>relation = [1], TO_ERASE = False\<rparr>]\<rparr>"

section \<open>Properties of the coupler\<close>

subsection \<open>Sequencing lemmas\<close>

lemma schedule_append: "schedule (xs @ ys) = schedule xs @ schedule ys"
  by (simp add: schedule_def List.map_filter_def)

lemma schedule_Nil: "schedule [] = []"
  by (simp add: schedule_def List.map_filter_def)

lemma schedule_Cons: "schedule (e # es) = (case call_of e of None \<Rightarrow> schedule es | Some k \<Rightarrow> k # schedule es)"
  by (cases "call_of e") (simp_all add: schedule_def List.map_filter_def)

lemma map_update_same: "i < length xs \<Longrightarrow> f y = f (xs ! i) \<Longrightarrow> map f (xs[i := y]) = map f xs"
  by (simp add: list_eq_iff_nth_eq nth_list_update)

lemma bind_result_Inr:
  "(bind_result r f = Inr y) = (\<exists>x. r = Inr x \<and> f x = Inr y)"
  by (cases r) (simp_all add: bind_result_def)

lemma getitem_Inr: "(getitem xs i = Inr x) = (i < length xs \<and> x = xs ! i)"
  by (auto simp: getitem_def)

lemma getattr_Inr: "(getattr a = Inr v) = (a = Some v)"
  by (cases a) (auto simp: getattr_def)

lemma wrapper_Solve_Inr:
  assumes "wrapper_SolveSolutionStep i c = Inr (r, c')"
  shows "calls c' = calls c @ [Solver_SolveSolutionStep i r]"
    and "timestep_ratio c' = timestep_ratio c"
  using assms
  by (auto simp: wrapper_SolveSolutionStep_def bind_result_Inr getitem_Inr emit_def Let_def)

lemma wrapper_Advance_Inr:
  assumes "wrapper_AdvanceInTime i t c = Inr (t', c')"
  shows "c' = emit [Solver_AdvanceInTime i t] c"
  using assms
  by (auto simp: wrapper_AdvanceInTime_def bind_result_Inr getitem_Inr)

lemma Send_Inr:
  assumes "SendStiffnessMatrixToUtility i c = Inr c'"
  shows "\<exists>new. c' = emit new c \<and> schedule new = [SubmitStiffness i]"
  using assms
  by (auto simp: SendStiffnessMatrixToUtility_def bind_result_Inr getitem_Inr getattr_Inr
      schedule_Cons schedule_Nil split: if_splits)

lemma prepare_Inr:
  assumes "substep_prepare c = Inr c'"
  shows "\<exists>new. calls c' = calls c @ new \<and> schedule new = [Advance 1, InitializeStep 1, Predict 1]
     \<and> timestep_ratio c' = timestep_ratio c"
  using assms
  by (auto simp: substep_prepare_def bind_result_Inr getattr_Inr wrapper_AdvanceInTime_def
      getitem_Inr Let_def emit_def schedule_Cons schedule_Nil split: if_splits)

lemma finalize_Inr:
  assumes "substep_finalize c = Inr c'"
  shows "\<exists>new. calls c' = calls c @ new \<and> schedule new = [] \<and> timestep_ratio c' = timestep_ratio c"
  using assms
  by (auto simp: substep_finalize_def bind_result_Inr Let_def emit_def schedule_Cons schedule_Nil
      split: if_splits)


lemma emit_ratio: "timestep_ratio (emit evs c) = timestep_ratio c"
  by (simp add: emit_def)

lemma substep_Inr:
  assumes "substep k c = Inr c'"
  shows "\<exists>new. calls c' = calls c @ new \<and> schedule new = substep_schedule k"
proof -
  from assms obtain c1 r c2 c3 where
    pre: "(if k > 1 then substep_prepare c else Inr c) = Inr c1"
    and solve: "wrapper_SolveSolutionStep 1 c1 = Inr (r, c2)"
    and send: "SendStiffnessMatrixToUtility 1 c2 = Inr c3"
    and post: "(if k \<noteq> timestep_ratio c3 then substep_finalize (emit [EquilibrateDomains] c3)
                else Inr (emit [EquilibrateDomains] c3)) = Inr c'"
    by (auto simp: substep_def bind_result_Inr Let_def emit_ratio simp del: One_nat_def)
  from pre obtain n1 where n1: "calls c1 = calls c @ n1"
      "schedule n1 = (if k > 1 then [Advance 1, InitializeStep 1, Predict 1] else [])"
    by (cases "k > 1") (auto simp: schedule_Nil dest!: prepare_Inr)
  from solve have n2: "calls c2 = calls c1 @ [Solver_SolveSolutionStep 1 r]"
    by (rule wrapper_Solve_Inr)
  from send obtain n3 where n3: "calls c3 = calls c2 @ n3" "schedule n3 = [SubmitStiffness 1]"
    by (auto simp: emit_def dest!: Send_Inr)
  from post obtain n4 where n4: "calls c' = calls c3 @ n4" "schedule n4 = [Equilibrate]"
  proof (cases "k \<noteq> timestep_ratio c3")
    case True
    with post have "substep_finalize (emit [EquilibrateDomains] c3) = Inr c'" by simp
    from finalize_Inr[OF this] obtain n where "calls c' = calls (emit [EquilibrateDomains] c3) @ n" "schedule n = []"
      by blast
    then have "calls c' = calls c3 @ (EquilibrateDomains # n)" "schedule (EquilibrateDomains # n) = [Equilibrate]"
      by (simp_all add: emit_def schedule_Cons)
    then show ?thesis by (rule that)
  next
    case False
    with post have "calls c' = calls c3 @ [EquilibrateDomains]" by (auto simp: emit_def)
    moreover have "schedule [EquilibrateDomains] = [Equilibrate]" by (simp add: schedule_Cons schedule_Nil)
    ultimately show ?thesis by (rule that)
  qed
  have "calls c' = calls c @ (n1 @ [Solver_SolveSolutionStep 1 r] @ n3 @ n4)"
    using n1 n2 n3 n4 by simp
  moreover have "schedule (n1 @ [Solver_SolveSolutionStep 1 r] @ n3 @ n4) = substep_schedule k"
    using n1 n3 n4 by (simp add: schedule_append schedule_Cons schedule_Nil substep_schedule_def)
  ultimately show ?thesis by blast
qed


lemma for_each_substep_Inr:
  "for_each ks substep c = Inr c' \<Longrightarrow>
     \<exists>new. calls c' = calls c @ new \<and> schedule new = concat (map substep_schedule ks)"
proof (induction ks arbitrary: c)
  case Nil
  then show ?case by (simp add: schedule_Nil)
next
  case (Cons k ks)
  from Cons.prems obtain c1 where s: "substep k c = Inr c1" and r: "for_each ks substep c1 = Inr c'"
    by (auto simp: bind_result_Inr)
  from substep_Inr[OF s] obtain n1 where n1: "calls c1 = calls c @ n1" "schedule n1 = substep_schedule k"
    by blast
  from Cons.IH[OF r] obtain n2 where n2: "calls c' = calls c1 @ n2" "schedule n2 = concat (map substep_schedule ks)"
    by blast
  have "calls c' = calls c @ (n1 @ n2)" using n1 n2 by simp
  moreover have "schedule (n1 @ n2) = concat (map substep_schedule (k # ks))"
    using n1 n2 by (simp add: schedule_append)
  ultimately show ?case by blast
qed

lemma SolveSolutionStep_Inr:
  assumes "SolveSolutionStep c = Inr (r, c')"
  shows "r = True"
    and "\<exists>new. calls c' = calls c @ new \<and>
           schedule new = [Solve 0, SubmitStiffness 0] @ concat (map substep_schedule [1..timestep_ratio c])"
proof -
  from assms obtain r0 c1 c2 where
    solve: "wrapper_SolveSolutionStep 0 c = Inr (r0, c1)"
    and send: "SendStiffnessMatrixToUtility 0 c1 = Inr c2"
    and loop: "for_each [1..timestep_ratio c2] substep c2 = Inr c'"
    and r: "r = True"
    by (auto simp: SolveSolutionStep_def bind_result_Inr)
  show "r = True" by (rule r)
  from solve have n1: "calls c1 = calls c @ [Solver_SolveSolutionStep 0 r0]"
    and f1: "timestep_ratio c1 = timestep_ratio c"
    by (rule wrapper_Solve_Inr)+
  from send obtain n2 where n2: "c2 = emit n2 c1" "schedule n2 = [SubmitStiffness 0]"
    by (auto dest!: Send_Inr)
  have ratio: "timestep_ratio c2 = timestep_ratio c"
    using f1 n2 by (simp add: emit_def)
  from for_each_substep_Inr[OF loop] ratio obtain n3 where
    n3: "calls c' = calls c2 @ n3" "schedule n3 = concat (map substep_schedule [1..timestep_ratio c])"
    by auto
  have "calls c' = calls c @ ([Solver_SolveSolutionStep 0 r0] @ n2 @ n3)"
    using n1 n2 n3 by (simp add: emit_def)
  moreover have "schedule ([Solver_SolveSolutionStep 0 r0] @ n2 @ n3) =
      [Solve 0, SubmitStiffness 0] @ concat (map substep_schedule [1..timestep_ratio c])"
    using n2 n3 by (simp add: schedule_append schedule_Cons schedule_Nil)
  ultimately show "\<exists>new. calls c' = calls c @ new \<and>
           schedule new = [Solve 0, SubmitStiffness 0] @ concat (map substep_schedule [1..timestep_ratio c])"
    by blast
qed

text \<open>Readiness is kept by every step, and a ready coupler raises nothing.\<close>

lemma solve_ready_emit: "solve_ready (emit evs c) = solve_ready c"
  by (simp add: solve_ready_def emit_def split: option.splits)

lemma wrapper_Solve_ready:
  assumes "solve_ready c" and "i < 2"
  shows "\<exists>r c'. wrapper_SolveSolutionStep i c = Inr (r, c') \<and> solve_ready c' \<and>
           timestep_ratio c' = timestep_ratio c"
proof -
  from assms have len: "i < length (solver_wrappers_vector c)" by (simp add: solve_ready_def)
  have cn: "ClassName ((solver_wrappers_vector c)[i := w\<lparr>solves := n\<rparr>] ! j) = ClassName (solver_wrappers_vector c ! j)"
    if "w = solver_wrappers_vector c ! i" for w n j
    using that len by (cases "j = i") (simp_all add: nth_list_update)
  show ?thesis
    using assms(1) len
    by (simp add: wrapper_SolveSolutionStep_def bind_result_def getitem_def Let_def
        solve_ready_def emit_def cn split: option.splits)
qed

lemma Send_ready:
  assumes "solve_ready c" and "i < 2"
  shows "\<exists>new. SendStiffnessMatrixToUtility i c = Inr (emit new c)"
proof -
  from assms(1) obtain imp where imp: "is_implicit c = Some imp" "2 \<le> length imp"
    "2 \<le> length (solver_wrappers_vector c)"
    "imp ! 0 \<longrightarrow> ClassName (solver_wrappers_vector c ! 0) = ''StructuralMechanicsWrapper''"
    "imp ! 1 \<longrightarrow> ClassName (solver_wrappers_vector c ! 1) = ''StructuralMechanicsWrapper''"
    by (auto simp: solve_ready_def split: option.splits)
  from assms(2) have "i = 0 \<or> i = 1" by auto
  then show ?thesis
    using imp
    by (auto simp: SendStiffnessMatrixToUtility_def GetSolverStrategy_def bind_result_def
        getitem_def getattr_def Let_def)
qed


lemma prepare_ready:
  assumes "solve_ready c"
  shows "\<exists>c'. substep_prepare c = Inr c' \<and> solve_ready c' \<and> timestep_ratio c' = timestep_ratio c"
proof -
  from assms obtain tB vtk where a: "solverB_time c = Some tB" "vtk_output_wrappers_vector c = Some vtk"
    "1 < length (solver_wrappers_vector c)"
    by (auto simp: solve_ready_def)
  have keep: "solve_ready (c\<lparr>solverB_time := Some t, calls := evs\<rparr>)" for evs t
    using assms by (simp add: solve_ready_def split: option.splits)
  show ?thesis
    using a keep
    by (simp add: substep_prepare_def wrapper_AdvanceInTime_def bind_result_def getitem_def
        getattr_def Let_def emit_def)
qed

lemma finalize_ready:
  assumes "solve_ready c"
  shows "\<exists>c'. substep_finalize c = Inr c' \<and> solve_ready c' \<and> timestep_ratio c' = timestep_ratio c"
proof -
  from assms obtain vtk where a: "vtk_output_wrappers_vector c = Some vtk"
    by (auto simp: solve_ready_def)
  have keep: "solve_ready (c\<lparr>calls := evs\<rparr>)" for evs
    using assms by (simp add: solve_ready_def split: option.splits)
  show ?thesis
    using a keep
    by (simp add: substep_finalize_def bind_result_def getattr_def Let_def emit_def)
qed

lemma substep_ready:
  assumes "solve_ready c"
  shows "\<exists>c'. substep k c = Inr c' \<and> solve_ready c' \<and> timestep_ratio c' = timestep_ratio c"
proof -
  obtain c1 where c1: "(if k > 1 then substep_prepare c else Inr c) = Inr c1" "solve_ready c1"
      "timestep_ratio c1 = timestep_ratio c"
    using prepare_ready[OF assms] assms by (cases "k > 1") auto
  obtain r c2 where c2: "wrapper_SolveSolutionStep 1 c1 = Inr (r, c2)" "solve_ready c2"
      "timestep_ratio c2 = timestep_ratio c1"
    using wrapper_Solve_ready[OF c1(2), of 1] by auto
  obtain n3 where c3: "SendStiffnessMatrixToUtility 1 c2 = Inr (emit n3 c2)"
    using Send_ready[OF c2(2), of 1] by auto
  let ?c4 = "emit [EquilibrateDomains] (emit n3 c2)"
  have r4: "solve_ready ?c4" "timestep_ratio ?c4 = timestep_ratio c"
    using c2 c1 by (simp_all add: solve_ready_emit emit_ratio)
  obtain c' where c': "(if k \<noteq> timestep_ratio ?c4 then substep_finalize ?c4 else Inr ?c4) = Inr c'"
      "solve_ready c'" "timestep_ratio c' = timestep_ratio c"
    using finalize_ready[OF r4(1)] r4 by (cases "k \<noteq> timestep_ratio ?c4") auto
  have "substep k c = Inr c'"
    using c1(1) c2(1) c3 c'(1) by (simp add: substep_def bind_result_def Let_def)
  with c' show ?thesis by blast
qed

lemma for_each_substep_ready:
  "solve_ready c \<Longrightarrow> \<exists>c'. for_each ks substep c = Inr c'"
proof (induction ks arbitrary: c)
  case Nil
  then show ?case by simp
next
  case (Cons k ks)
  from substep_ready[OF Cons.prems, of k] obtain c1 where "substep k c = Inr c1" "solve_ready c1"
    by blast
  with Cons.IH[of c1] show ?case by (auto simp: bind_result_def)
qed

lemma SolveSolutionStep_ready:
  assumes "solve_ready c"
  shows "\<exists>c'. SolveSolutionStep c = Inr (True, c')"
proof -
  obtain r c1 where c1: "wrapper_SolveSolutionStep 0 c = Inr (r, c1)" "solve_ready c1"
    using wrapper_Solve_ready[OF assms, of 0] by auto
  obtain n2 where c2: "SendStiffnessMatrixToUtility 0 c1 = Inr (emit n2 c1)"
    using Send_ready[OF c1(2), of 0] by auto
  have r2: "solve_ready (emit n2 c1)" using c1 by (simp add: solve_ready_emit)
  then have len: "1 < length (solver_wrappers_vector (emit n2 c1))" by (simp add: solve_ready_def)
  obtain c' where c': "for_each [1..timestep_ratio (emit n2 c1)] substep (emit n2 c1) = Inr c'"
    using for_each_substep_ready[OF r2] by blast
  have "SolveSolutionStep c = Inr (True, c')"
    using c1(1) c2 len c' by (simp add: SolveSolutionStep_def bind_result_def getitem_def)
  then show ?thesis by blast
qed

lemma upto_1_3: "[1..3] = [1, 2, 3::int]"
  by code_simp

subsection \<open>The substep schedule\<close>

text \<open>
  Claim C1. For a coupler with \<open>timestep_ratio = 3\<close>, every call of
  \<^verbatim>\<open>SolveSolutionStep\<close> that returns has made exactly these calls, in this order: one
  solve and one stiffness submission on Domain A (index 0), then three times a solve, a
  stiffness submission and the equilibration on Domain B (index 1), where Domain B's
  \<^verbatim>\<open>AdvanceInTime\<close>, \<^verbatim>\<open>InitializeSolutionStep\<close> and \<^verbatim>\<open>Predict\<close> come before the
  second and the third of them and not before the first. The call does return, with
  \<^verbatim>\<open>True\<close>, on every coupler that has been set up (\<open>solve_ready\<close>).
\<close>

theorem SolveSolutionStep_ratio_3:
  assumes "timestep_ratio c = 3"
  shows "(solve_ready c \<longrightarrow> (\<exists>c'. SolveSolutionStep c = Inr (True, c'))) \<and>
         (\<forall>r c'. SolveSolutionStep c = Inr (r, c') \<longrightarrow>
            (\<exists>new. calls c' = calls c @ new \<and>
               schedule new =
                 [Solve 0, SubmitStiffness 0,
                  Solve 1, SubmitStiffness 1, Equilibrate,
                  Advance 1, InitializeStep 1, Predict 1, Solve 1, SubmitStiffness 1, Equilibrate,
                  Advance 1, InitializeStep 1, Predict 1, Solve 1, SubmitStiffness 1, Equilibrate]))"
proof (intro conjI impI allI)
  assume "solve_ready c"
  then show "\<exists>c'. SolveSolutionStep c = Inr (True, c')" by (rule SolveSolutionStep_ready)
next
  fix r c'
  assume "SolveSolutionStep c = Inr (r, c')"
  from SolveSolutionStep_Inr(2)[OF this] assms
  show "\<exists>new. calls c' = calls c @ new \<and>
               schedule new =
                 [Solve 0, SubmitStiffness 0,
                  Solve 1, SubmitStiffness 1, Equilibrate,
                  Advance 1, InitializeStep 1, Predict 1, Solve 1, SubmitStiffness 1, Equilibrate,
                  Advance 1, InitializeStep 1, Predict 1, Solve 1, SubmitStiffness 1, Equilibrate]"
    by (simp add: upto_1_3 substep_schedule_def)
qed

theorem SolveSolutionStep_ratio_3_witness:
  "timestep_ratio demo_coupler = 3 \<and> solve_ready demo_coupler \<and>
   \<not> isl (SolveSolutionStep demo_coupler) \<and>
   schedule (calls (snd (projr (SolveSolutionStep demo_coupler)))) =
                 [Solve 0, SubmitStiffness 0,
                  Solve 1, SubmitStiffness 1, Equilibrate,
                  Advance 1, InitializeStep 1, Predict 1, Solve 1, SubmitStiffness 1, Equilibrate,
                  Advance 1, InitializeStep 1, Predict 1, Solve 1, SubmitStiffness 1, Equilibrate]"
proof -
  have h: "timestep_ratio demo_coupler = 3" by (simp add: demo_coupler_def)
  have rdy: "solve_ready demo_coupler"
    by (simp add: solve_ready_def demo_coupler_def demo_wrapper_def)
  from SolveSolutionStep_ratio_3[OF h] rdy obtain c' where
    run: "SolveSolutionStep demo_coupler = Inr (True, c')" by blast
  from SolveSolutionStep_ratio_3[OF h] run have
    "\<exists>new. calls c' = calls demo_coupler @ new \<and> schedule new =
                 [Solve 0, SubmitStiffness 0,
                  Solve 1, SubmitStiffness 1, Equilibrate,
                  Advance 1, InitializeStep 1, Predict 1, Solve 1, SubmitStiffness 1, Equilibrate,
                  Advance 1, InitializeStep 1, Predict 1, Solve 1, SubmitStiffness 1, Equilibrate]"
    by blast
  moreover have "calls demo_coupler = []" by (simp add: demo_coupler_def)
  ultimately show ?thesis using h rdy run by auto
qed

subsection \<open>The success indicator\<close>

text \<open>
  Claim C10. Whenever \<^verbatim>\<open>SolveSolutionStep\<close> returns, it returns \<^verbatim>\<open>True\<close>: the booleans
  that the domains' own \<^verbatim>\<open>SolveSolutionStep\<close> return (\<open>solve_result\<close>, which is
  arbitrary here) are not read.
\<close>

theorem SolveSolutionStep_returns_True:
  "SolveSolutionStep c = Inr (r, c') \<Longrightarrow> r = True"
  by (auto simp: SolveSolutionStep_def bind_result_Inr)

theorem SolveSolutionStep_returns_True_witness:
  "solve_result demo_wrapper 0 = False \<and>
   SolveSolutionStep demo_coupler =
     Inr (fst (projr (SolveSolutionStep demo_coupler)), snd (projr (SolveSolutionStep demo_coupler))) \<and>
   fst (projr (SolveSolutionStep demo_coupler)) = True"
proof -
  have "solve_ready demo_coupler"
    by (simp add: solve_ready_def demo_coupler_def demo_wrapper_def)
  then obtain c' where "SolveSolutionStep demo_coupler = Inr (True, c')"
    using SolveSolutionStep_ready by blast
  then have run: "SolveSolutionStep demo_coupler =
     Inr (fst (projr (SolveSolutionStep demo_coupler)), snd (projr (SolveSolutionStep demo_coupler)))"
    by simp
  from SolveSolutionStep_returns_True[OF run] run show ?thesis
    by (simp add: demo_wrapper_def)
qed

subsection \<open>The coupler's time\<close>

text \<open>
  Claim C2, as the code has it. \<^verbatim>\<open>AdvanceInTime\<close> advances Domain B first and then
  Domain A, both from the given time. The time it returns, and keeps as the coupler's own
  time, is the value returned by Domain A (that value when it is not zero, and 0
  otherwise, which is the same number). The value returned by Domain B is stored as
  \<open>solverB_time\<close> and is never the coupler's time.
\<close>

theorem AdvanceInTime_returns_time_of_A:
  assumes "solver_wrappers_vector c = wA # wB # rest"
  shows "AdvanceInTime t c =
           Inr (advance_time wA t,
                c\<lparr>time := Some (advance_time wA t), solverB_time := Some (advance_time wB t),
                  calls := calls c @ [Solver_AdvanceInTime 1 t, Solver_AdvanceInTime 0 t]\<rparr>)"
  using assms
  by (simp add: AdvanceInTime_def wrapper_AdvanceInTime_def bind_result_def getitem_def
      getattr_def emit_def Let_def)

theorem AdvanceInTime_returns_time_of_A_witness:
  "solver_wrappers_vector demo_coupler = demo_wrapper # demo_wrapper # [] \<and>
   AdvanceInTime 4 demo_coupler =
     Inr (5, demo_coupler\<lparr>time := Some 5, solverB_time := Some 5,
               calls := [Solver_AdvanceInTime 1 4, Solver_AdvanceInTime 0 4]\<rparr>)"
proof -
  have h: "solver_wrappers_vector demo_coupler = demo_wrapper # demo_wrapper # []"
    by (simp add: demo_coupler_def)
  have "calls demo_coupler = []" "advance_time demo_wrapper 4 = 5"
    by (simp_all add: demo_coupler_def demo_wrapper_def)
  with AdvanceInTime_returns_time_of_A[OF h, of 4] h show ?thesis by simp
qed

text \<open>
  Claim C2 as stated fails: Domain B returns the non-zero time 1 and Domain A returns 0,
  and the coupler's time is 0, not 1.
\<close>

theorem AdvanceInTime_ignores_time_of_B:
  "advance_time (solver_wrappers_vector steady_A_coupler ! 1) 0 = 1 \<and>
   advance_time (solver_wrappers_vector steady_A_coupler ! 0) 0 = 0 \<and>
   \<not> isl (AdvanceInTime 0 steady_A_coupler) \<and>
   fst (projr (AdvanceInTime 0 steady_A_coupler)) = 0 \<and>
   time (snd (projr (AdvanceInTime 0 steady_A_coupler))) = Some 0 \<and>
   solverB_time (snd (projr (AdvanceInTime 0 steady_A_coupler))) = Some 1"
  by (simp add: AdvanceInTime_def wrapper_AdvanceInTime_def bind_result_def getitem_def
      getattr_def emit_def Let_def steady_A_coupler_def steady_wrapper_def demo_coupler_def
      demo_wrapper_def)

subsection \<open>Validation of the timestep ratio\<close>

lemma py_int_fixed: "(real_of_int (py_int x) = x) = (x \<in> \<int>)"
proof
  assume "real_of_int (py_int x) = x"
  then show "x \<in> \<int>" by (metis Ints_of_int)
next
  assume "x \<in> \<int>"
  then obtain k where "x = real_of_int k" by (auto elim: Ints_cases)
  then show "real_of_int (py_int x) = x" by (simp add: py_int_def)
qed

text \<open>
  Claim C5, as the code has it. Construction checks that \<open>timestep_ratio\<close> is a whole
  number and nothing else: it raises the configuration error exactly when the value is not
  an integer (2.5, say), before any call on a solver, and it succeeds, with that integer as
  the ratio and no call made, for every integer value: the positive ones, and zero and
  the negative ones as well.
\<close>

theorem init_checks_integrality:
  "(timestep_ratio_setting s \<notin> \<int> \<longrightarrow>
      init s ws = Inl (Exception ''An integer timestep_ratio must be specified in the CoSim parameters file.'')) \<and>
   (\<forall>k. timestep_ratio_setting s = real_of_int k \<longrightarrow>
      (\<exists>c. init s ws = Inr c \<and> timestep_ratio c = k \<and> calls c = []))"
  by (auto simp: init_def Let_def py_int_fixed) (simp add: py_int_def)

theorem init_checks_integrality_witness:
  "(5 / 2 :: real) \<notin> \<int> \<and>
   init (default_settings\<lparr>timestep_ratio_setting := 5 / 2\<rparr>) [demo_wrapper, demo_wrapper] =
     Inl (Exception ''An integer timestep_ratio must be specified in the CoSim parameters file.'') \<and>
   (3 :: real) = real_of_int 3 \<and>
   (\<exists>c. init (default_settings\<lparr>timestep_ratio_setting := 3\<rparr>) [demo_wrapper, demo_wrapper] = Inr c \<and>
        timestep_ratio c = 3 \<and> calls c = [])"
proof -
  have "real_of_int (py_int (5 / 2)) \<noteq> 5 / 2" by (simp add: py_int_def)
  then have a: "(5 / 2 :: real) \<notin> \<int>" by (simp add: py_int_fixed)
  have b: "timestep_ratio_setting (default_settings\<lparr>timestep_ratio_setting := 3\<rparr>) = real_of_int 3"
    by simp
  from init_checks_integrality[of "default_settings\<lparr>timestep_ratio_setting := 5 / 2\<rparr>" "[demo_wrapper, demo_wrapper]"]
    init_checks_integrality[of "default_settings\<lparr>timestep_ratio_setting := 3\<rparr>" "[demo_wrapper, demo_wrapper]"]
    a b show ?thesis by auto
qed

text \<open>
  Claim C5 as stated fails: the ratios 0 and -3 are not positive integers, and
  construction accepts them.
\<close>

theorem init_accepts_zero_and_negative:
  "\<not> isl (init (default_settings\<lparr>timestep_ratio_setting := 0\<rparr>) [demo_wrapper, demo_wrapper]) \<and>
   timestep_ratio (projr (init (default_settings\<lparr>timestep_ratio_setting := 0\<rparr>) [demo_wrapper, demo_wrapper])) = 0 \<and>
   \<not> isl (init (default_settings\<lparr>timestep_ratio_setting := - 3\<rparr>) [demo_wrapper, demo_wrapper]) \<and>
   timestep_ratio (projr (init (default_settings\<lparr>timestep_ratio_setting := - 3\<rparr>) [demo_wrapper, demo_wrapper])) = - 3"
  by (simp add: init_def py_int_def)

subsection \<open>The stiffness exchange\<close>

lemma InitializeFetiMethod_modes:
  assumes "InitializeFetiMethod c = Inr c'"
  shows "feti_modes_set c'" and "settings c' = settings c"
  using assms
  by (auto simp: InitializeFetiMethod_def bind_result_Inr Let_def emit_def CreateLinearSolver_def
      feti_modes_set_def split: if_splits option.splits)

text \<open>
  No step of the coupler changes the modes or the settings, so the modes stay as
  \<^verbatim>\<open>__InitializeFetiMethod\<close> has set them.
\<close>

lemma same_modes_refl: "same_modes c c"
  by (simp add: same_modes_def)

lemma same_modes_trans: "same_modes a b \<Longrightarrow> same_modes b c \<Longrightarrow> same_modes a c"
  by (simp add: same_modes_def)

lemma same_modes_emit: "same_modes c (emit evs c)"
  by (simp add: same_modes_def emit_def)

lemma wrapper_Solve_modes: "wrapper_SolveSolutionStep i c = Inr (r, c') \<Longrightarrow> same_modes c c'"
  by (auto simp: wrapper_SolveSolutionStep_def bind_result_Inr getitem_Inr emit_def Let_def same_modes_def)

lemma Send_modes: "SendStiffnessMatrixToUtility i c = Inr c' \<Longrightarrow> same_modes c c'"
  by (auto dest!: Send_Inr simp: same_modes_emit)

lemma prepare_modes: "substep_prepare c = Inr c' \<Longrightarrow> same_modes c c'"
  by (auto simp: substep_prepare_def bind_result_Inr getattr_Inr wrapper_AdvanceInTime_def
      getitem_Inr Let_def emit_def same_modes_def split: if_splits)

lemma finalize_modes: "substep_finalize c = Inr c' \<Longrightarrow> same_modes c c'"
  by (auto simp: substep_finalize_def bind_result_Inr Let_def emit_def same_modes_def
      split: if_splits)

lemma substep_modes:
  assumes "substep k c = Inr c'"
  shows "same_modes c c'"
proof -
  from assms obtain c1 r c2 c3 where
    pre: "(if k > 1 then substep_prepare c else Inr c) = Inr c1"
    and solve: "wrapper_SolveSolutionStep 1 c1 = Inr (r, c2)"
    and send: "SendStiffnessMatrixToUtility 1 c2 = Inr c3"
    and post: "(if k \<noteq> timestep_ratio c3 then substep_finalize (emit [EquilibrateDomains] c3)
                else Inr (emit [EquilibrateDomains] c3)) = Inr c'"
    by (auto simp: substep_def bind_result_Inr Let_def emit_ratio simp del: One_nat_def)
  from pre have 1: "same_modes c c1"
    by (cases "k > 1") (auto dest: prepare_modes simp: same_modes_refl)
  from solve have 2: "same_modes c1 c2" by (rule wrapper_Solve_modes)
  from send have 3: "same_modes c2 c3" by (rule Send_modes)
  from post have 4: "same_modes (emit [EquilibrateDomains] c3) c'"
    by (cases "k \<noteq> timestep_ratio c3") (auto dest: finalize_modes simp: same_modes_refl)
  from 1 2 3 4 same_modes_emit[of c3 "[EquilibrateDomains]"] show ?thesis
    by (blast intro: same_modes_trans)
qed

lemma for_each_substep_modes:
  "for_each ks substep c = Inr c' \<Longrightarrow> same_modes c c'"
proof (induction ks arbitrary: c)
  case Nil
  then show ?case by (simp add: same_modes_refl)
next
  case (Cons k ks)
  from Cons.prems obtain c1 where s: "substep k c = Inr c1" and r: "for_each ks substep c1 = Inr c'"
    by (auto simp: bind_result_Inr)
  from substep_modes[OF s] Cons.IH[OF r] show ?case by (rule same_modes_trans)
qed

lemma SolveSolutionStep_keeps_modes:
  assumes "SolveSolutionStep c = Inr (r, c')" and "feti_modes_set c"
  shows "feti_modes_set c'"
proof -
  from assms(1) obtain r0 c1 c2 where
    solve: "wrapper_SolveSolutionStep 0 c = Inr (r0, c1)"
    and send: "SendStiffnessMatrixToUtility 0 c1 = Inr c2"
    and loop: "for_each [1..timestep_ratio c2] substep c2 = Inr c'"
    by (auto simp: SolveSolutionStep_def bind_result_Inr)
  from wrapper_Solve_modes[OF solve] Send_modes[OF send] for_each_substep_modes[OF loop]
  have "same_modes c c'" by (blast intro: same_modes_trans)
  with assms(2) show ?thesis by (simp add: same_modes_def feti_modes_set_def)
qed

lemma AdvanceInTime_keeps_modes:
  assumes "AdvanceInTime t c = Inr (t', c')" and "feti_modes_set c"
  shows "feti_modes_set c'"
  using assms
  by (auto simp: AdvanceInTime_def bind_result_Inr getattr_Inr wrapper_AdvanceInTime_def
      getitem_Inr Let_def emit_def feti_modes_set_def split: if_splits)

text \<open>
  Claim C8. For a domain index \<open>i\<close> of 0 or 1, with the modes as
  \<^verbatim>\<open>__InitializeFetiMethod\<close> sets them from the settings: when the Newmark beta of the
  domain is not zero, the stiffness exchange gets the system matrix that the domain's
  strategy holds now and submits it with the index \<open>i\<close> (the strategy of a wrapper that
  is not a structural mechanics wrapper cannot be got, which is the exception of
  \<^verbatim>\<open>_GetSolverStrategy\<close>); when the beta is zero, it submits the explicit-mode signal for
  \<open>i\<close> and nothing else, so no matrix.
\<close>

theorem stiffness_exchange_by_mode:
  assumes "feti_modes_set c" and "i < 2" and "i < length (solver_wrappers_vector c)"
  shows "SendStiffnessMatrixToUtility i c =
           (if newmark_beta (settings c) i \<noteq> 0
            then (let w = solver_wrappers_vector c ! i in
                  if ClassName w = ''StructuralMechanicsWrapper''
                  then Inr (emit [GetSystemMatrix i,
                                  SetEffectiveStiffnessMatrixImplicit (system_matrix w (solves w)) i] c)
                  else Inl (Exception (''_GetSolverStrategy not implemented for solver wrapper = '' @ ClassName w)))
            else Inr (emit [SetEffectiveStiffnessMatrixExplicit i] c))"
proof -
  from assms(2) have "i = 0 \<or> i = 1" by auto
  then show ?thesis
    using assms(1,3)
    by (auto simp: SendStiffnessMatrixToUtility_def GetSolverStrategy_def bind_result_def
        getitem_def getattr_def Let_def feti_modes_set_def newmark_beta_def)
qed

theorem stiffness_exchange_by_mode_witness:
  "feti_modes_set demo_coupler \<and> (0::nat) < 2 \<and> (1::nat) < 2 \<and>
   1 < length (solver_wrappers_vector demo_coupler) \<and>
   newmark_beta (settings demo_coupler) 0 \<noteq> 0 \<and> newmark_beta (settings demo_coupler) 1 = 0 \<and>
   SendStiffnessMatrixToUtility 0 demo_coupler =
     Inr (emit [GetSystemMatrix 0, SetEffectiveStiffnessMatrixImplicit 0 0] demo_coupler) \<and>
   SendStiffnessMatrixToUtility 1 demo_coupler =
     Inr (emit [SetEffectiveStiffnessMatrixExplicit 1] demo_coupler)"
proof -
  have m: "feti_modes_set demo_coupler"
    by (simp add: feti_modes_set_def demo_coupler_def default_settings_def)
  have l: "0 < length (solver_wrappers_vector demo_coupler)" "1 < length (solver_wrappers_vector demo_coupler)"
    by (simp_all add: demo_coupler_def)
  have b: "newmark_beta (settings demo_coupler) 0 \<noteq> 0" "newmark_beta (settings demo_coupler) 1 = 0"
    by (simp_all add: newmark_beta_def demo_coupler_def default_settings_def)
  have w: "solver_wrappers_vector demo_coupler ! 0 = demo_wrapper"
    by (simp add: demo_coupler_def)
  have d: "ClassName demo_wrapper = ''StructuralMechanicsWrapper''" "system_matrix demo_wrapper (solves demo_wrapper) = 0"
    by (simp_all add: demo_wrapper_def)
  from stiffness_exchange_by_mode[OF m _ l(1)] stiffness_exchange_by_mode[OF m _ l(2)]
  show ?thesis using m l b w d by simp
qed

section \<open>Properties of the RVE analysis\<close>

subsection \<open>Bounding box\<close>

lemma bounding_fold:
  assumes "fold bounding_step ns (lo, hi) = (lo', hi')"
  shows "(\<forall>i. at3 lo' i \<le> at3 lo i \<and> at3 hi i \<le> at3 hi' i) \<and>
         (\<forall>n \<in> set ns. at3 lo' 0 \<le> X n \<and> X n \<le> at3 hi' 0 \<and>
                        at3 lo' 1 \<le> Y n \<and> Y n \<le> at3 hi' 1 \<and>
                        at3 lo' 2 \<le> Z n \<and> Z n \<le> at3 hi' 2)"
  using assms
proof (induction ns arbitrary: lo hi)
  case Nil
  then show ?case by simp
next
  case (Cons n ns)
  obtain lo1 hi1 where step: "bounding_step n (lo, hi) = (lo1, hi1)" by (cases "bounding_step n (lo, hi)")
  with Cons.prems have rest: "fold bounding_step ns (lo1, hi1) = (lo', hi')" by simp
  from step have s: "\<forall>i. at3 lo1 i \<le> at3 lo i \<and> at3 hi i \<le> at3 hi1 i"
    "at3 lo1 0 \<le> X n" "X n \<le> at3 hi1 0" "at3 lo1 1 \<le> Y n" "Y n \<le> at3 hi1 1"
    "at3 lo1 2 \<le> Z n" "Z n \<le> at3 hi1 2"
    by (auto simp: bounding_step_def at3_def split: prod.splits)
  from Cons.IH[OF rest] have ih: "\<forall>i. at3 lo' i \<le> at3 lo1 i \<and> at3 hi1 i \<le> at3 hi' i"
    "\<forall>n \<in> set ns. at3 lo' 0 \<le> X n \<and> X n \<le> at3 hi' 0 \<and>
                        at3 lo' 1 \<le> Y n \<and> Y n \<le> at3 hi' 1 \<and>
                        at3 lo' 2 \<le> Z n \<and> Z n \<le> at3 hi' 2"
    by blast+
  have a: "\<forall>i. at3 lo' i \<le> at3 lo i \<and> at3 hi i \<le> at3 hi' i"
    using s(1) ih(1) by (meson order_trans)
  have b: "at3 lo' 0 \<le> X n \<and> X n \<le> at3 hi' 0 \<and> at3 lo' 1 \<le> Y n \<and> Y n \<le> at3 hi' 1 \<and>
           at3 lo' 2 \<le> Z n \<and> Z n \<le> at3 hi' 2"
    using s(2-) ih(1) by (meson order_trans)
  from a b ih(2) show ?case by simp
qed

text \<open>
  Claim C9. For a region with at least one node, the corners that the bounding-box
  detection returns satisfy \<open>min[i] \<le> max[i]\<close> on every axis \<open>i\<close> below the domain
  dimensionality \<open>d\<close>, which is 2 or 3.
\<close>

theorem bounding_box_ordered:
  assumes "nodes \<noteq> []" and "d = 2 \<or> d = 3" and "i < d"
  shows "at3 (fst (DetectBoundingBox nodes)) i \<le> at3 (snd (DetectBoundingBox nodes)) i"
proof -
  obtain lo hi where r: "DetectBoundingBox nodes = (lo, hi)" by (cases "DetectBoundingBox nodes")
  from assms(1) obtain n where n: "n \<in> set nodes" by (cases nodes) auto
  from r have "fold bounding_step nodes ((10 ^ 20, 10 ^ 20, 10 ^ 20), (- (10 ^ 20), - (10 ^ 20), - (10 ^ 20))) = (lo, hi)"
    by (simp add: DetectBoundingBox_def)
  from bounding_fold[OF this] n have
    b: "at3 lo 0 \<le> X n" "X n \<le> at3 hi 0" "at3 lo 1 \<le> Y n" "Y n \<le> at3 hi 1"
       "at3 lo 2 \<le> Z n" "Z n \<le> at3 hi 2"
    by blast+
  from assms(2,3) have "i = 0 \<or> i = 1 \<or> i = 2" by auto
  with b r show ?thesis by auto
qed

theorem bounding_box_ordered_witness:
  "rectangle_nodes \<noteq> [] \<and> (1::nat) < 2 \<and>
   DetectBoundingBox rectangle_nodes = ((0, 0, 0), (3, 4, 0)) \<and>
   at3 (fst (DetectBoundingBox rectangle_nodes)) 1 \<le> at3 (snd (DetectBoundingBox rectangle_nodes)) 1"
proof -
  have a: "rectangle_nodes \<noteq> []" by (simp add: rectangle_nodes_def)
  have b: "DetectBoundingBox rectangle_nodes = ((0, 0, 0), (3, 4, 0))"
    by (simp add: DetectBoundingBox_def rectangle_nodes_def bounding_step_def at3_def)
  from bounding_box_ordered[OF a, of 2 1] a b show ?thesis by simp
qed

subsection \<open>Face classification\<close>

lemma fold_claim_node:
  "fold claim_node ns (ids, sl) = (ids \<union> (set ns - sl), sl \<union> set ns)"
  by (induction ns arbitrary: ids sl) (auto simp: claim_node_def)

lemma claim_nodes_eq:
  "claim_nodes conds (ids, sl) =
     (ids \<union> ((\<Union>cond \<in> set conds. set (GetNodes cond)) - sl), sl \<union> (\<Union>cond \<in> set conds. set (GetNodes cond)))"
  unfolding claim_nodes_def
  by (induction conds arbitrary: ids sl) (auto simp: fold_claim_node)

lemma add_near_eq:
  "set (Conditions (add_near coordinate component eps conds f)) =
     set (Conditions f) \<union> {c \<in> set conds. near coordinate component eps c}"
  "Nodes (add_near coordinate component eps conds f) = Nodes f"
  unfolding add_near_def
  by (induction conds arbitrary: f) (auto simp: AddCondition_def near_def)

lemma PopulateMp_Inr:
  assumes "PopulateMp face_name coordinate component eps mp m = Inr (f, m')"
  shows "set (Conditions f) = set (conditions_before m face_name) \<union>
           {c \<in> set (Conditions (root m)). near coordinate component eps c}"
    and "Nodes f = nodes_before m face_name \<union> (facet_nodes f - SLAVE m)"
    and "SLAVE m' = SLAVE m \<union> facet_nodes f"
    and "root m' = root m"
    and "SubModelParts m' = (SubModelParts m)(face_name \<mapsto> f)"
    and "MasterSlaveConstraints m' = MasterSlaveConstraints m"
    and "NumberOfConditions mp \<noteq> 0"
proof -
  define f0 where "f0 = (case SubModelParts m face_name of None \<Rightarrow> \<lparr>Conditions = [], Nodes = {}\<rparr> | Some g \<Rightarrow> g)"
  define f1 where "f1 = add_near coordinate component eps (Conditions (root m)) f0"
  have c0: "Conditions f0 = conditions_before m face_name" "Nodes f0 = nodes_before m face_name"
    by (simp_all add: f0_def conditions_before_def nodes_before_def split: option.splits)
  from assms have ne: "NumberOfConditions mp \<noteq> 0"
    by (auto simp: PopulateMp_def split: if_splits)
  from assms ne have f: "f = AddNodes (fst (claim_nodes (Conditions f1) ({}, SLAVE m))) f1"
    and m': "m' = m\<lparr>SubModelParts := (SubModelParts m)(face_name \<mapsto> f),
                     SLAVE := snd (claim_nodes (Conditions f1) ({}, SLAVE m))\<rparr>"
    by (auto simp: PopulateMp_def Let_def f1_def f0_def split: prod.splits option.splits if_splits)
  have cf: "Conditions f = Conditions f1" by (simp add: f AddNodes_def)
  show "NumberOfConditions mp \<noteq> 0" by (rule ne)
  show "set (Conditions f) = set (conditions_before m face_name) \<union>
           {c \<in> set (Conditions (root m)). near coordinate component eps c}"
    by (simp add: cf f1_def add_near_eq c0)
  show "Nodes f = nodes_before m face_name \<union> (facet_nodes f - SLAVE m)"
    by (simp add: f AddNodes_def claim_nodes_eq facet_nodes_def f1_def add_near_eq(2) c0)
  show "SLAVE m' = SLAVE m \<union> facet_nodes f"
    by (simp add: m' claim_nodes_eq facet_nodes_def cf)
  show "root m' = root m" "SubModelParts m' = (SubModelParts m)(face_name \<mapsto> f)"
    "MasterSlaveConstraints m' = MasterSlaveConstraints m"
    by (simp_all add: m')
qed


lemma bind_result_simps: "bind_result (Inr x) f = f x" "bind_result (Inl e) f = Inl e"
  by (simp_all add: bind_result_def)











lemma populate_eval:
  "PopulateMp face_name coordinate component eps mp m =
     (if Conditions mp = [] then Inl (Exception ''Boundary_mp is expected to have conditions and has none'')
      else let f0 = (case SubModelParts m face_name of None \<Rightarrow> \<lparr>Conditions = [], Nodes = {}\<rparr> | Some g \<Rightarrow> g);
               f1 = add_near coordinate component eps (Conditions (root m)) f0;
               cl = claim_nodes (Conditions f1) ({}, SLAVE m);
               f = AddNodes (fst cl) f1
           in Inr (f, m\<lparr>SubModelParts := (SubModelParts m)(face_name \<mapsto> f), SLAVE := snd cl\<rparr>))"
  by (auto simp: PopulateMp_def NumberOfConditions_def Let_def split: prod.splits option.splits)





text \<open>
  Claim C4, as the code has it. \<^verbatim>\<open>__PopulateMp\<close> returns whenever the boundary region
  has a facet, and the facets of the face group are then those that a group of that name
  held before (none when it is created by the call) and every facet of the root model
  part whose center satisfies \<open>|center[axis] - coordinate| < eps\<close>. The boundary region
  is read for the emptiness check only.
\<close>

theorem PopulateMp_takes_root_facets:
  "(0 < NumberOfConditions mp \<longrightarrow> \<not> isl (PopulateMp face_name coordinate component eps mp m)) \<and>
   (\<forall>f m'. PopulateMp face_name coordinate component eps mp m = Inr (f, m') \<longrightarrow>
      set (Conditions f) = set (conditions_before m face_name) \<union>
        {c \<in> set (Conditions (root m)). \<bar>at3 (Center c) component - coordinate\<bar> < eps})"
proof (intro conjI allI impI)
  assume "0 < NumberOfConditions mp"
  then show "\<not> isl (PopulateMp face_name coordinate component eps mp m)"
    by (simp add: PopulateMp_def Let_def split: prod.splits)
next
  fix f m'
  assume "PopulateMp face_name coordinate component eps mp m = Inr (f, m')"
  from PopulateMp_Inr(1)[OF this]
  show "set (Conditions f) = set (conditions_before m face_name) \<union>
        {c \<in> set (Conditions (root m)). \<bar>at3 (Center c) component - coordinate\<bar> < eps}"
    by (simp add: near_def)
qed

subsection \<open>The classification of the rectangle\<close>


lemma fresh_rectangle: "nodes_before (rectangle_mesh conds) name = {}"
  "conditions_before (rectangle_mesh conds) name = []"
  "Conditions (root (rectangle_mesh conds)) = conds"
  by (simp_all add: nodes_before_def conditions_before_def rectangle_mesh_def side_region_def)







theorem PopulateMp_takes_root_facets_witness:
  "0 < NumberOfConditions (side_region all_sides) \<and>
   \<not> isl (PopulateMp ''max_x_face'' 3 0 (5 / 10 ^ 4) (side_region all_sides)
            (rectangle_mesh all_sides :: unit mesh)) \<and>
   set (Conditions (fst (projr (PopulateMp ''max_x_face'' 3 0 (5 / 10 ^ 4) (side_region all_sides)
            (rectangle_mesh all_sides :: unit mesh))))) = {cond_right}"
proof -
  let ?r = "PopulateMp ''max_x_face'' 3 0 (5 / 10 ^ 4) (side_region all_sides)
            (rectangle_mesh all_sides :: unit mesh)"
  have pos: "0 < NumberOfConditions (side_region all_sides)"
    by (simp add: NumberOfConditions_def side_region_def all_sides_def)
  with PopulateMp_takes_root_facets[where mp = "side_region all_sides"
      and face_name = "''max_x_face''" and coordinate = 3 and component = 0 and eps = "5 / 10 ^ 4"
      and m = "rectangle_mesh all_sides :: unit mesh"]
  have ok: "\<not> isl ?r" by blast
  then have run: "?r = Inr (fst (projr ?r), snd (projr ?r))" by (cases ?r) auto
  from PopulateMp_takes_root_facets[where mp = "side_region all_sides"
      and face_name = "''max_x_face''" and coordinate = 3 and component = 0 and eps = "5 / 10 ^ 4"
      and m = "rectangle_mesh all_sides :: unit mesh"] run
  have "set (Conditions (fst (projr ?r))) =
        set (conditions_before (rectangle_mesh all_sides :: unit mesh) ''max_x_face'') \<union>
        {c \<in> set (Conditions (root (rectangle_mesh all_sides :: unit mesh))).
           \<bar>at3 (Center c) 0 - 3\<bar> < 5 / 10 ^ 4}"
    by blast
  also have "\<dots> = {cond_right}"
    by (auto simp: fresh_rectangle all_sides_def at3_def
        cond_bottom_def cond_right_def cond_top_def cond_left_def)
  finally show ?thesis using pos ok by simp
qed

text \<open>
  Claim C4 as stated fails: with the left side as the boundary region, the right side
  is a facet of the root outside the boundary region, and it is added to the max x face.
\<close>

theorem facet_outside_boundary_added:
  "set (Conditions (side_region [cond_left])) \<subseteq> set (Conditions (root (rectangle_mesh all_sides :: unit mesh))) \<and>
   cond_right \<notin> set (Conditions (side_region [cond_left])) \<and>
   \<not> isl (PopulateMp ''max_x_face'' 3 0 (5 / 10 ^ 4) (side_region [cond_left])
            (rectangle_mesh all_sides :: unit mesh)) \<and>
   cond_right \<in> set (Conditions (fst (projr (PopulateMp ''max_x_face'' 3 0 (5 / 10 ^ 4)
            (side_region [cond_left]) (rectangle_mesh all_sides :: unit mesh)))))"
  by (simp add: populate_eval rectangle_mesh_def side_region_def all_sides_def at3_def
      add_near_def AddCondition_def claim_nodes_def claim_node_def AddNodes_def
      cond_bottom_def cond_right_def cond_top_def cond_left_def Let_def)

subsection \<open>Periodicity\<close>

lemma clear_constraints_eq: "clear_constraints m = m\<lparr>MasterSlaveConstraints := []\<rparr>"
  by (simp add: clear_constraints_def Let_def filter_map comp_def)

lemma ApplyPeriodicity_old_constraints:
  "ApplyPeriodicity util strain self (m\<lparr>MasterSlaveConstraints := cs\<rparr>) = ApplyPeriodicity util strain self m"
  by (simp add: ApplyPeriodicity_def clear_constraints_eq)

lemma ApplyPeriodicity_frame:
  assumes "ApplyPeriodicity util strain self m = Inr m1"
  shows "m1\<lparr>MasterSlaveConstraints := MasterSlaveConstraints m\<rparr> = m"
  using assms
  by (auto simp: ApplyPeriodicity_def clear_constraints_eq Let_def bind_result_Inr getattr_Inr
      split: if_splits)

text \<open>
  Claim C7. \<^verbatim>\<open>_ApplyPeriodicity\<close> removes every master-slave constraint of the root,
  whatever its origin, before it rebuilds: its result does not depend on the constraints
  that the mesh held. Applied again to its own result, with the same strain, it returns
  the same mesh, so a constraint set of the same size.
\<close>

theorem ApplyPeriodicity_replaces_constraints:
  "ApplyPeriodicity util strain self (m\<lparr>MasterSlaveConstraints := cs\<rparr>) = ApplyPeriodicity util strain self m \<and>
   (\<forall>m1. ApplyPeriodicity util strain self m = Inr m1 \<longrightarrow>
      (\<exists>m2. ApplyPeriodicity util strain self m1 = Inr m2 \<and>
            length (MasterSlaveConstraints m2) = length (MasterSlaveConstraints m1) \<and> m2 = m1))"
proof (intro conjI allI impI)
  show "ApplyPeriodicity util strain self (m\<lparr>MasterSlaveConstraints := cs\<rparr>) = ApplyPeriodicity util strain self m"
    by (rule ApplyPeriodicity_old_constraints)
next
  fix m1
  assume run: "ApplyPeriodicity util strain self m = Inr m1"
  have "ApplyPeriodicity util strain self m1 =
        ApplyPeriodicity util strain self (m1\<lparr>MasterSlaveConstraints := MasterSlaveConstraints m\<rparr>)"
    by (rule ApplyPeriodicity_old_constraints[symmetric])
  also have "\<dots> = Inr m1" using ApplyPeriodicity_frame[OF run] run by simp
  finally show "\<exists>m2. ApplyPeriodicity util strain self m1 = Inr m2 \<and>
            length (MasterSlaveConstraints m2) = length (MasterSlaveConstraints m1) \<and> m2 = m1"
    by simp
qed

theorem ApplyPeriodicity_replaces_constraints_witness:
  "ApplyPeriodicity demo_utility () periodic_analysis constrained_mesh =
     Inr ((rectangle_mesh all_sides)\<lparr>MasterSlaveConstraints :=
            [\<lparr>relation = [3, 0], TO_ERASE = False\<rparr>, \<lparr>relation = [0, 4], TO_ERASE = False\<rparr>]\<rparr>) \<and>
   ApplyPeriodicity demo_utility () periodic_analysis
     ((rectangle_mesh all_sides)\<lparr>MasterSlaveConstraints :=
            [\<lparr>relation = [3, 0], TO_ERASE = False\<rparr>, \<lparr>relation = [0, 4], TO_ERASE = False\<rparr>]\<rparr>) =
     Inr ((rectangle_mesh all_sides)\<lparr>MasterSlaveConstraints :=
            [\<lparr>relation = [3, 0], TO_ERASE = False\<rparr>, \<lparr>relation = [0, 4], TO_ERASE = False\<rparr>]\<rparr>)"
proof -
  have run: "ApplyPeriodicity demo_utility () periodic_analysis constrained_mesh =
     Inr ((rectangle_mesh all_sides)\<lparr>MasterSlaveConstraints :=
            [\<lparr>relation = [3, 0], TO_ERASE = False\<rparr>, \<lparr>relation = [0, 4], TO_ERASE = False\<rparr>]\<rparr>)"
    by (simp add: ApplyPeriodicity_def clear_constraints_eq constrained_mesh_def
        periodic_analysis_def classified_all_def analysis_2D_def demo_utility_def
        bind_result_simps getattr_def at3_def Let_def)
  from ApplyPeriodicity_replaces_constraints[where util = demo_utility and strain = "()"
      and self = periodic_analysis and m = constrained_mesh]
    run show ?thesis by simp
qed

end
